theory Spec2Isabelle
  imports Complex_Main "HOL-Library.Word"
begin

section \<open>Data model of \<^verbatim>\<open>docker/api/client.py\<close>\<close>

text \<open>
  Bytes are 8-bit words, a byte string is a list of them. Python integers are unbounded,
  so the values read out of a header are natural numbers.
\<close>

type_synonym byte = "8 word"
type_synonym bytes = "byte list"

text \<open>
  Every \<^verbatim>\<open>raise\<close> of the source is a value of this type. \<open>APIError\<close> carries the status
  code of the failed response, the two configuration errors carry their message.
\<close>

datatype error =
    APIError nat
  | StructError
  | ValueError
  | DockerException string
  | TLSParameterError string

text \<open>
  A generator is modelled by the finite list of the values it yields together with the way
  it ends: \<open>Exhausted\<close> when the body runs off its end or breaks out of its loop,
  \<open>Raised e\<close> when an exception leaves it after the values yielded so far.
\<close>

datatype outcome = Exhausted | Raised error

type_synonym 'a generator = "'a list \<times> outcome"

definition yield :: "'a \<Rightarrow> 'a generator \<Rightarrow> 'a generator" where
  "yield x g = (x # fst g, snd g)"

text \<open>
  The part of a \<^verbatim>\<open>requests.Response\<close> the client reads: the status code, the buffered
  body \<^verbatim>\<open>response.content\<close>, the bytes still unread on \<^verbatim>\<open>response.raw\<close>, and what the
  library's iterators \<^verbatim>\<open>iter_lines\<close> and \<^verbatim>\<open>iter_content\<close> deliver.
\<close>

record response =
  status_code :: nat
  content :: bytes
  raw :: bytes
  iter_lines :: "string list"
  iter_content :: "string list"

text \<open>
  Modelled from the spec: the constant \<^verbatim>\<open>STREAM_HEADER_SIZE_BYTES\<close> lives in
  \<^verbatim>\<open>docker/constants.py\<close>, which is not part of the sources at hand; the spec gives the
  header as 8 bytes, which is also the size of the format \<^verbatim>\<open>'>BxxxL'\<close>.
\<close>

definition STREAM_HEADER_SIZE_BYTES :: nat where
  "STREAM_HEADER_SIZE_BYTES = 8"

section \<open>Library primitives used by the stream helpers\<close>

text \<open>
  \<^verbatim>\<open>buf[a:b]\<close> for non-negative indices: Python clamps both ends to the length of the
  sequence and gives the empty sequence when \<open>b \<le> a\<close>.
\<close>

definition py_slice :: "'a list \<Rightarrow> nat \<Rightarrow> nat \<Rightarrow> 'a list" where
  "py_slice xs a b = take (b - a) (drop a xs)"

text \<open>
  \<^verbatim>\<open>struct.unpack_from('>BxxxL', header)\<close>: one unsigned byte, three pad bytes, one
  unsigned big-endian 32-bit integer. It raises \<^verbatim>\<open>struct.error\<close> on a buffer shorter
  than 8 bytes and ignores what follows the first 8.
\<close>

fun unpack_from_BxxxL :: "bytes \<Rightarrow> error + (nat \<times> nat)" where
  "unpack_from_BxxxL (c # x1 # x2 # x3 # l3 # l2 # l1 # l0 # rest) =
     Inr (unat c, ((unat l3 * 256 + unat l2) * 256 + unat l1) * 256 + unat l0)"
| "unpack_from_BxxxL _ = Inl StructError"

text \<open>\<^verbatim>\<open>struct.unpack('>BxxxL', header)\<close> wants exactly 8 bytes.\<close>

definition unpack_BxxxL :: "bytes \<Rightarrow> error + (nat \<times> nat)" where
  "unpack_BxxxL header =
     (if length header \<noteq> 8 then Inl StructError else unpack_from_BxxxL header)"

text \<open>
  \<^verbatim>\<open>response.raw.read(n)\<close> on a blocking reader over a finite stream: the next \<open>n\<close>
  bytes, or what is left when the stream ends first; the reader advances past them.
\<close>

definition read :: "nat \<Rightarrow> bytes \<Rightarrow> bytes \<times> bytes" where
  "read n stream = (take n stream, drop n stream)"

text \<open>
  \<^verbatim>\<open>response.raise_for_status()\<close> of the requests library raises for the status codes
  400 to 599; \<^verbatim>\<open>_raise_for_status\<close> turns that into the client's structured error.
\<close>

definition raise_for_status :: "response \<Rightarrow> error option" where
  "raise_for_status r =
     (if 400 \<le> status_code r \<and> status_code r < 600
      then Some (APIError (status_code r)) else None)"

text \<open>\<^verbatim>\<open>_result(response, binary=True)\<close>.\<close>

definition result_binary :: "response \<Rightarrow> error + bytes" where
  "result_binary r =
     (case raise_for_status r of Some e \<Rightarrow> Inl e | None \<Rightarrow> Inr (content r))"

section \<open>The stream demultiplexer\<close>

text \<open>
  The loop of \<^verbatim>\<open>_multiplexed_buffer_helper\<close>, with the buffer and the walker as its
  state. The channel byte is unpacked and thrown away, as the source does with \<^verbatim>\<open>_\<close>.
\<close>

function multiplexed_buffer_loop :: "bytes \<Rightarrow> nat \<Rightarrow> bytes generator" where
  "multiplexed_buffer_loop buf walker =
     (if int (length buf) - int walker < int STREAM_HEADER_SIZE_BYTES then ([], Exhausted)
      else
        (let header = py_slice buf walker (walker + STREAM_HEADER_SIZE_BYTES) in
         case unpack_from_BxxxL header of
           Inl e \<Rightarrow> ([], Raised e)
         | Inr (channel, len) \<Rightarrow>
             (let start = walker + STREAM_HEADER_SIZE_BYTES;
                  end = start + len
              in yield (py_slice buf start end) (multiplexed_buffer_loop buf end))))"
  by pat_completeness auto
termination
  by (relation "measure (\<lambda>(buf, walker). length buf - walker)")
     (auto simp: STREAM_HEADER_SIZE_BYTES_def)

definition multiplexed_buffer_helper :: "response \<Rightarrow> bytes generator" where
  "multiplexed_buffer_helper r =
     (case result_binary r of
        Inl e \<Rightarrow> ([], Raised e)
      | Inr buf \<Rightarrow> multiplexed_buffer_loop buf 0)"

text \<open>
  The loop of \<^verbatim>\<open>_multiplexed_response_stream_helper\<close> over the unread bytes of
  \<^verbatim>\<open>response.raw\<close>: an empty header read breaks, a frame of length zero is skipped with
  \<^verbatim>\<open>continue\<close>, an empty payload read breaks.
\<close>

function multiplexed_response_stream_loop :: "bytes \<Rightarrow> bytes generator" where
  "multiplexed_response_stream_loop stream =
     (let (header, stream1) = read STREAM_HEADER_SIZE_BYTES stream in
      if header = [] then ([], Exhausted)
      else
        case unpack_BxxxL header of
          Inl e \<Rightarrow> ([], Raised e)
        | Inr (channel, len) \<Rightarrow>
            if len = 0 then multiplexed_response_stream_loop stream1
            else
              (let (data, stream2) = read len stream1 in
               if data = [] then ([], Exhausted)
               else yield data (multiplexed_response_stream_loop stream2)))"
  by pat_completeness auto
termination
  by (relation "measure length")
     (auto simp: read_def STREAM_HEADER_SIZE_BYTES_def)

text \<open>
  \<^verbatim>\<open>_multiplexed_response_stream_helper\<close>: \<^verbatim>\<open>_get_raw_response_socket\<close> raises for a
  failed response before anything is read; the timeout of the extracted socket is handled
  by \<open>disable_socket_timeout\<close> below and does not touch the bytes of the stream.
\<close>

definition multiplexed_response_stream_helper :: "response \<Rightarrow> bytes generator" where
  "multiplexed_response_stream_helper r =
     (case raise_for_status r of
        Some e \<Rightarrow> ([], Raised e)
      | None \<Rightarrow> multiplexed_response_stream_loop (raw r))"

text \<open>
  The wire format of the spec, section 6, written as the encoder the daemon's side applies:
  one channel byte, three reserved bytes (zero), the payload length as four big-endian
  bytes, then the payload. The client has no encoder; this one is what the round-trip
  properties are stated against.
\<close>

definition encode_header :: "byte \<Rightarrow> nat \<Rightarrow> bytes" where
  "encode_header c n =
     [c, 0, 0, 0, of_nat (n div 2 ^ 24), of_nat (n div 2 ^ 16), of_nat (n div 2 ^ 8), of_nat n]"

definition encode_frame :: "byte \<times> bytes \<Rightarrow> bytes" where
  "encode_frame f = encode_header (fst f) (length (snd f)) @ snd f"

definition encode_frames :: "(byte \<times> bytes) list \<Rightarrow> bytes" where
  "encode_frames fs = concat (map encode_frame fs)"

text \<open>
  Two ghost readings of a buffer, following the recursion of \<open>multiplexed_buffer_loop\<close>:
  the length a header at offset \<open>walker\<close> declares, and the offsets at which the loop
  finds a header.
\<close>

definition declared_length :: "bytes \<Rightarrow> nat \<Rightarrow> nat" where
  "declared_length buf walker =
     (case unpack_from_BxxxL (py_slice buf walker (walker + STREAM_HEADER_SIZE_BYTES)) of
        Inl e \<Rightarrow> 0
      | Inr (channel, len) \<Rightarrow> len)"

function frame_offsets :: "bytes \<Rightarrow> nat \<Rightarrow> nat list" where
  "frame_offsets buf walker =
     (if int (length buf) - int walker < int STREAM_HEADER_SIZE_BYTES then []
      else walker #
           frame_offsets buf (walker + STREAM_HEADER_SIZE_BYTES + declared_length buf walker))"
  by pat_completeness auto
termination
  by (relation "measure (\<lambda>(buf, walker). length buf - walker)")
     (auto simp: STREAM_HEADER_SIZE_BYTES_def)

section \<open>Stream-mode selection\<close>

text \<open>
  Modelled from the spec: \<^verbatim>\<open>utils.compare_version\<close> and \<^verbatim>\<open>utils.version_lt\<close> live in
  \<^verbatim>\<open>docker/utils/utils.py\<close>, which is not part of the sources at hand. The spec speaks of
  a version that precedes another, or is older than a constant; versions are dotted
  decimal strings such as \<^verbatim>\<open>1.30\<close>, compared component by component as numbers, a
  missing third component counting as zero. \<open>compare_version v1 v2\<close> is negative when
  \<open>v2\<close> precedes \<open>v1\<close> (the source's comment at its use: anything before 1.6 needs
  old-style streaming), zero when they are equal and positive otherwise.
\<close>

fun split_dots :: "string \<Rightarrow> string list" where
  "split_dots [] = [[]]"
| "split_dots (c # cs) =
     (if c = CHR ''.'' then [] # split_dots cs
      else (case split_dots cs of [] \<Rightarrow> [[c]] | x # xs \<Rightarrow> (c # x) # xs))"

definition int_of_string :: "string \<Rightarrow> nat" where
  "int_of_string s = foldl (\<lambda>a c. 10 * a + (of_char c - 48)) 0 s"

definition version_tuple :: "string \<Rightarrow> nat list" where
  "version_tuple v =
     (let xs = map int_of_string (split_dots v) in xs @ replicate (3 - length xs) 0)"

fun lex_less :: "nat list \<Rightarrow> nat list \<Rightarrow> bool" where
  "lex_less [] [] = False"
| "lex_less [] (y # ys) = True"
| "lex_less (x # xs) [] = False"
| "lex_less (x # xs) (y # ys) = (if x = y then lex_less xs ys else x < y)"

definition version_precedes :: "string \<Rightarrow> string \<Rightarrow> bool" where
  "version_precedes v1 v2 = lex_less (version_tuple v1) (version_tuple v2)"

text \<open>
  Modelled from the spec: \<^verbatim>\<open>utils.compare_version\<close> is not part of the sources at hand.
  Negative when \<open>v2\<close> precedes \<open>v1\<close>, zero when they are the same version, positive
  otherwise.
\<close>

definition compare_version :: "string \<Rightarrow> string \<Rightarrow> int" where
  "compare_version v1 v2 =
     (if version_tuple v1 = version_tuple v2 then 0
      else if version_precedes v2 v1 then - 1 else 1)"

text \<open>
  Modelled from the spec: \<^verbatim>\<open>utils.version_lt\<close> is not part of the sources at hand. True
  when \<open>v1\<close> is older than \<open>v2\<close>.
\<close>

definition version_lt :: "string \<Rightarrow> string \<Rightarrow> bool" where
  "version_lt v1 v2 = (compare_version v1 v2 > 0)"

text \<open>
  \<^verbatim>\<open>_stream_raw_result_old\<close>: the lines of \<^verbatim>\<open>response.iter_lines\<close>, the empty keep-alive
  lines filtered out. The status check runs when the generator is first advanced.
\<close>

definition stream_raw_result_old :: "response \<Rightarrow> string generator" where
  "stream_raw_result_old r =
     (case raise_for_status r of
        Some e \<Rightarrow> ([], Raised e)
      | None \<Rightarrow> (filter (\<lambda>line. line \<noteq> []) (iter_lines r), Exhausted))"

text \<open>\<^verbatim>\<open>_stream_raw_result\<close>: every chunk of \<^verbatim>\<open>response.iter_content\<close> as it comes.\<close>

definition stream_raw_result :: "response \<Rightarrow> string generator" where
  "stream_raw_result r =
     (case raise_for_status r of
        Some e \<Rightarrow> ([], Raised e)
      | None \<Rightarrow> (iter_content r, Exhausted))"

text \<open>
  What \<^verbatim>\<open>_get_result_tty\<close> returns, one constructor for each of its five \<^verbatim>\<open>return\<close>
  expressions.
\<close>

datatype result =
    Stream_raw_result_old "string generator"
  | Stream_raw_result "string generator"
  | Result_binary bytes
  | Multiplexed_response_stream "bytes generator"
  | Multiplexed_buffer_joined bytes

text \<open>
  \<^verbatim>\<open>sep.join([x for x in gen])\<close>: the list comprehension runs the generator to its end,
  and an exception raised inside it leaves the comprehension.
\<close>

definition join_generator :: "bytes generator \<Rightarrow> error + bytes" where
  "join_generator g =
     (case snd g of Raised e \<Rightarrow> Inl e | Exhausted \<Rightarrow> Inr (concat (fst g)))"

definition get_result_tty :: "string \<Rightarrow> bool \<Rightarrow> response \<Rightarrow> bool \<Rightarrow> error + result" where
  "get_result_tty version stream res is_tty =
     (if compare_version ''1.6'' version < 0
      then Inr (Stream_raw_result_old (stream_raw_result_old res))
      else if is_tty then
        (if stream then Inr (Stream_raw_result (stream_raw_result res))
         else (case result_binary res of
                 Inl e \<Rightarrow> Inl e
               | Inr b \<Rightarrow> Inr (Result_binary b)))
      else
        (case raise_for_status res of
           Some e \<Rightarrow> Inl e
         | None \<Rightarrow>
             if stream
             then Inr (Multiplexed_response_stream (multiplexed_response_stream_helper res))
             else (case join_generator (multiplexed_buffer_helper res) of
                     Inl e \<Rightarrow> Inl e
                   | Inr b \<Rightarrow> Inr (Multiplexed_buffer_joined b))))"

text \<open>The three stream modes of the spec's data model, read off the helper that ran.\<close>

datatype stream_mode = Legacy_Line | Raw_Passthrough | Multiplexed

fun mode_of :: "result \<Rightarrow> stream_mode" where
  "mode_of (Stream_raw_result_old g) = Legacy_Line"
| "mode_of (Stream_raw_result g) = Raw_Passthrough"
| "mode_of (Result_binary b) = Raw_Passthrough"
| "mode_of (Multiplexed_response_stream g) = Multiplexed"
| "mode_of (Multiplexed_buffer_joined b) = Multiplexed"

section \<open>Construction of the client\<close>

text \<open>
  The arguments of \<^verbatim>\<open>APIClient.__init__\<close>. \<^verbatim>\<open>tls\<close> is \<^verbatim>\<open>False\<close>, \<^verbatim>\<open>True\<close> or a
  \<^verbatim>\<open>TLSConfig\<close> object; \<^verbatim>\<open>version\<close> is \<^verbatim>\<open>None\<close>, a string, or a value of another type,
  of which only the type's name is used.
\<close>

datatype tls_arg = TLS_False | TLS_True | TLS_Config

datatype version_arg = Version_None | Version_Str string | Version_Other string

record init_args =
  arg_base_url :: "string option"
  arg_version :: version_arg
  arg_timeout :: int
  arg_tls :: tls_arg
  arg_user_agent :: string
  arg_num_pools :: nat

text \<open>
  What the constructor takes from outside \<^verbatim>\<open>client.py\<close>: the constants of
  \<^verbatim>\<open>docker/constants.py\<close>, whether the import of \<^verbatim>\<open>NpipeAdapter\<close> succeeded,
  \<^verbatim>\<open>utils.parse_host\<close> (which may raise), and the daemon's answer to the unversioned
  \<^verbatim>\<open>GET /version\<close>: the decoded JSON object, or the text of the exception the call ended
  with.
\<close>

record environment =
  IS_WINDOWS_PLATFORM :: bool
  npipe_adapter_imported :: bool
  DEFAULT_DOCKER_API_VERSION :: string
  MINIMUM_DOCKER_API_VERSION :: string
  parse_host :: "string option \<Rightarrow> bool \<Rightarrow> bool \<Rightarrow> error + string"
  server_version :: "string + (string \<rightharpoonup> string)"

datatype adapter =
    HTTPAdapter
  | UnixAdapter string int nat
  | NpipeAdapter string int nat
  | SSLAdapter nat
  | TLSConfigAdapter

text \<open>
  The session under construction. \<open>adapters\<close> is the mount table of
  \<^verbatim>\<open>requests.Session\<close>, \<open>api_version\<close> the attribute \<^verbatim>\<open>_version\<close>.
\<close>

record client =
  base_url :: string
  timeout :: int
  user_agent :: string
  adapters :: "(string \<times> adapter) list"
  custom_adapter :: "adapter option"
  api_version :: string

text \<open>
  The effects of a construction that the claims speak of: the number of network calls
  issued and the warnings emitted, in order.
\<close>

record effects =
  network_calls :: nat
  warnings :: "string list"

definition no_effects :: effects where
  "no_effects = \<lparr>network_calls = 0, warnings = []\<rparr>"

text \<open>Python truth values of the two arguments the first check reads.\<close>

fun truthy_tls :: "tls_arg \<Rightarrow> bool" where
  "truthy_tls TLS_False = False"
| "truthy_tls TLS_True = True"
| "truthy_tls TLS_Config = True"

fun truthy_str :: "string option \<Rightarrow> bool" where
  "truthy_str None = False"
| "truthy_str (Some s) = (s \<noteq> [])"

definition startswith :: "string \<Rightarrow> string \<Rightarrow> bool" where
  "startswith s p = (take (length p) s = p)"

text \<open>\<^verbatim>\<open>str.lower\<close> on the ASCII letters.\<close>

definition lower_char :: "char \<Rightarrow> char" where
  "lower_char c =
     (if 65 \<le> (of_char c :: nat) \<and> (of_char c :: nat) \<le> 90
      then char_of ((of_char c :: nat) + 32) else c)"

definition lower :: "string \<Rightarrow> string" where
  "lower s = map lower_char s"

text \<open>Dictionary assignment \<^verbatim>\<open>d[k] = v\<close> and \<^verbatim>\<open>d.pop(k)\<close> on an insertion-ordered dictionary.\<close>

fun dict_set :: "('k \<times> 'v) list \<Rightarrow> 'k \<Rightarrow> 'v \<Rightarrow> ('k \<times> 'v) list" where
  "dict_set [] k v = [(k, v)]"
| "dict_set ((k', v') # d) k v =
     (if k' = k then (k, v) # d else (k', v') # dict_set d k v)"

definition dict_pop :: "('k \<times> 'v) list \<Rightarrow> 'k \<Rightarrow> ('k \<times> 'v) list" where
  "dict_pop d k = filter (\<lambda>kv. fst kv \<noteq> k) d"

text \<open>The state \<^verbatim>\<open>requests.Session.__init__\<close> leaves, with the first assignments of the body.\<close>

definition new_session :: "init_args \<Rightarrow> client" where
  "new_session a =
     \<lparr>base_url = (case arg_base_url a of None \<Rightarrow> [] | Some u \<Rightarrow> u),
      timeout = arg_timeout a,
      user_agent = arg_user_agent a,
      adapters = [(''https://'', HTTPAdapter), (''http://'', HTTPAdapter)],
      custom_adapter = None,
      api_version = []\<rparr>"

text \<open>
  Modelled from the spec: \<^verbatim>\<open>TLSConfig.configure_client\<close> lives in \<^verbatim>\<open>docker/tls.py\<close>, which
  is not part of the sources at hand; by the spec a TCP address with TLS settings is
  wrapped in a TLS adapter that carries the custom material.
\<close>

definition configure_client :: "client \<Rightarrow> client" where
  "configure_client c = c\<lparr>adapters := dict_set (adapters c) ''https://'' TLSConfigAdapter\<rparr>"

text \<open>Lines 105 to 134: the adapter for the parsed base address.\<close>

definition select_transport :: "environment \<Rightarrow> init_args \<Rightarrow> string \<Rightarrow> client \<Rightarrow> error + client" where
  "select_transport env a url c =
     (if startswith url ''http+unix://'' then
        (let ad = UnixAdapter url (arg_timeout a) (arg_num_pools a) in
         Inr (c\<lparr>custom_adapter := Some ad,
                adapters := dict_pop (dict_pop (dict_set (adapters c) ''http+docker://'' ad)
                                        ''http://'') ''https://'',
                base_url := ''http+docker://localunixsocket''\<rparr>))
      else if startswith url ''npipe://'' then
        (if \<not> IS_WINDOWS_PLATFORM env
         then Inl (DockerException ''The npipe:// protocol is only supported on Windows'')
         else if \<not> npipe_adapter_imported env
         then Inl (DockerException ''Install pypiwin32 package to enable npipe:// support'')
         else
           (let ad = NpipeAdapter url (arg_timeout a) (arg_num_pools a) in
            Inr (c\<lparr>custom_adapter := Some ad,
                   adapters := dict_set (adapters c) ''http+docker://'' ad,
                   base_url := ''http+docker://localnpipe''\<rparr>)))
      else
        (case arg_tls a of
           TLS_Config \<Rightarrow> Inr ((configure_client c)\<lparr>base_url := url\<rparr>)
         | TLS_True \<Rightarrow>
             (let ad = SSLAdapter (arg_num_pools a) in
              Inr (c\<lparr>custom_adapter := Some ad,
                     adapters := dict_set (adapters c) ''https://'' ad,
                     base_url := url\<rparr>))
         | TLS_False \<Rightarrow> Inr (c\<lparr>base_url := url\<rparr>)))"

text \<open>
  \<^verbatim>\<open>_retrieve_server_version\<close>: the one place of the constructor that goes to the network.
  A missing key and any other failure both become a \<^verbatim>\<open>DockerException\<close> with its text.
\<close>

definition retrieve_server_version :: "environment \<Rightarrow> error + string" where
  "retrieve_server_version env =
     (case server_version env of
        Inl msg \<Rightarrow> Inl (DockerException (''Error while fetching server API version: '' @ msg))
      | Inr d \<Rightarrow>
          (case d ''ApiVersion'' of
             None \<Rightarrow>
               Inl (DockerException
                 (''Invalid response from docker daemon: key '' @ [CHR 0x22] @ ''ApiVersion''
                    @ [CHR 0x22] @ '' is missing.''))
           | Some v \<Rightarrow> Inr v))"

text \<open>Lines 137 to 149: the resolved version, with the network calls it took.\<close>

definition resolve_version :: "environment \<Rightarrow> version_arg \<Rightarrow> (error + string) \<times> nat" where
  "resolve_version env version =
     (case version of
        Version_None \<Rightarrow> (Inr (DEFAULT_DOCKER_API_VERSION env), 0)
      | Version_Str v \<Rightarrow>
          (if lower v = ''auto'' then (retrieve_server_version env, 1) else (Inr v, 0))
      | Version_Other tyname \<Rightarrow>
          (Inl (DockerException
             (''Version parameter must be a string or None. Found '' @ tyname)), 0))"

text \<open>Lines 150 to 156: the compatibility warning, as the list of warnings emitted.\<close>

definition minimum_version_warning :: "environment \<Rightarrow> string \<Rightarrow> string list" where
  "minimum_version_warning env v =
     (if version_lt v (MINIMUM_DOCKER_API_VERSION env)
      then [''The minimum API version supported is '' @ MINIMUM_DOCKER_API_VERSION env
            @ '', but you are using version '' @ v
            @ ''. It is recommended you either upgrade Docker Engine or use an older ''
            @ ''version of Docker SDK for Python.'']
      else [])"

text \<open>
  Lines 91 to 134 of \<^verbatim>\<open>APIClient.__init__\<close>: the TLS check, the parsed base address and
  the adapter mounted for it. Nothing here goes to the network. \<^verbatim>\<open>auth.load_config\<close>
  reads local files only and is left out.
\<close>

definition init_transport :: "environment \<Rightarrow> init_args \<Rightarrow> error + client" where
  "init_transport env a =
     (if truthy_tls (arg_tls a) \<and> \<not> truthy_str (arg_base_url a)
      then Inl (TLSParameterError ''If using TLS, the base_url argument must be provided.'')
      else
        (case parse_host env (arg_base_url a) (IS_WINDOWS_PLATFORM env) (truthy_tls (arg_tls a)) of
           Inl e \<Rightarrow> Inl e
         | Inr url \<Rightarrow> select_transport env a url (new_session a)))"

text \<open>
  \<^verbatim>\<open>APIClient.__init__\<close>: the constructed client or the exception that ended the
  construction, with the effects up to that point.
\<close>

definition init :: "environment \<Rightarrow> init_args \<Rightarrow> (error + client) \<times> effects" where
  "init env a =
     (case init_transport env a of
        Inl e \<Rightarrow> (Inl e, no_effects)
      | Inr c \<Rightarrow>
          (case resolve_version env (arg_version a) of
             (Inl e, calls) \<Rightarrow> (Inl e, \<lparr>network_calls = calls, warnings = []\<rparr>)
           | (Inr v, calls) \<Rightarrow>
               (Inr (c\<lparr>api_version := v\<rparr>),
                \<lparr>network_calls = calls, warnings = minimum_version_warning env v\<rparr>)))"

section \<open>URL construction\<close>

text \<open>
  An argument of \<^verbatim>\<open>_url\<close> is a string or something else. \<^verbatim>\<open>str.format\<close> and
  \<^verbatim>\<open>quote_plus\<close> with \<^verbatim>\<open>safe="/:"\<close> belong to the Python library and are parameters.
\<close>

datatype url_arg = Str_arg string | Other_arg

fun str_args :: "url_arg list \<Rightarrow> error + string list" where
  "str_args [] = Inr []"
| "str_args (Other_arg # as) = Inl ValueError"
| "str_args (Str_arg s # as) =
     (case str_args as of Inl e \<Rightarrow> Inl e | Inr ss \<Rightarrow> Inr (s # ss))"

definition url :: "(string \<Rightarrow> string list \<Rightarrow> string) \<Rightarrow> (string \<Rightarrow> string) \<Rightarrow> client \<Rightarrow>
    string \<Rightarrow> url_arg list \<Rightarrow> bool \<Rightarrow> error + string" where
  "url format quote_f c pathfmt args versioned_api =
     (case str_args args of
        Inl e \<Rightarrow> Inl e
      | Inr ss \<Rightarrow>
          (if versioned_api
           then Inr (base_url c @ ''/v'' @ api_version c @ format pathfmt (map quote_f ss))
           else Inr (base_url c @ format pathfmt (map quote_f ss))))"

section \<open>Socket timeouts\<close>

text \<open>
  A socket object as \<^verbatim>\<open>_disable_socket_timeout\<close> sees it: whether it has the methods
  \<^verbatim>\<open>settimeout\<close> and \<^verbatim>\<open>gettimeout\<close>, its timeout (\<open>None\<close> for disabled, \<open>Some 0\<close> for
  non-blocking) and the object behind its attribute \<^verbatim>\<open>_sock\<close>, if it has one.
\<close>

datatype socket =
  Socket (has_settimeout: bool) (has_gettimeout: bool) (sock_timeout: "real option")
         (inner_sock: "socket option")

text \<open>The body of the \<^verbatim>\<open>for\<close> loop, for one element of \<^verbatim>\<open>sockets\<close> that is a socket.\<close>

definition disable_timeout_of :: "socket \<Rightarrow> socket" where
  "disable_timeout_of s =
     (if \<not> has_settimeout s then s
      else
        (let timeout = (if has_gettimeout s then sock_timeout s else Some (- 1)) in
         if timeout = None \<or> timeout = Some 0 then s
         else Socket (has_settimeout s) (has_gettimeout s) None (inner_sock s)))"

text \<open>
  \<^verbatim>\<open>_disable_socket_timeout\<close>: the socket itself, then the object behind \<^verbatim>\<open>_sock\<close>; a
  missing \<^verbatim>\<open>_sock\<close> is \<^verbatim>\<open>None\<close>, which has no \<^verbatim>\<open>settimeout\<close> and is skipped.
\<close>

definition disable_socket_timeout :: "socket \<Rightarrow> socket" where
  "disable_socket_timeout s =
     (let s1 = disable_timeout_of s in
      case inner_sock s1 of
        None \<Rightarrow> s1
      | Some i \<Rightarrow>
          Socket (has_settimeout s1) (has_gettimeout s1) (sock_timeout s1)
                 (Some (disable_timeout_of i)))"

section \<open>Posting JSON\<close>

text \<open>The values \<^verbatim>\<open>_post_json\<close> is given as \<^verbatim>\<open>data\<close>; a dictionary keeps its items in order.\<close>

datatype json =
    JNone
  | JBool bool
  | JInt int
  | JStr string
  | JList "json list"
  | JDict "(string \<times> json) list"

text \<open>The keyword arguments \<^verbatim>\<open>_post_json\<close> passes on; \<open>headers = None\<close> when the key is absent.\<close>

record kwargs =
  headers :: "(string \<times> string) list option"
  params :: "(string \<times> string) list"

text \<open>The call \<^verbatim>\<open>self._post(url, data=..., **kwargs)\<close> that \<^verbatim>\<open>_post_json\<close> ends with.\<close>

record post_call =
  post_url :: string
  post_data :: string
  post_kwargs :: kwargs

text \<open>The loop over \<^verbatim>\<open>six.iteritems(data)\<close>, with \<^verbatim>\<open>data2\<close> as the accumulator.\<close>

fun copy_not_none :: "(string \<times> json) list \<Rightarrow> (string \<times> json) list \<Rightarrow> (string \<times> json) list" where
  "copy_not_none [] data2 = data2"
| "copy_not_none ((k, v) # items) data2 =
     copy_not_none items (if v \<noteq> JNone then dict_set data2 k v else data2)"

definition post_json_data2 :: "json \<Rightarrow> json" where
  "post_json_data2 data =
     (case data of
        JDict items \<Rightarrow> JDict (copy_not_none items [])
      | JNone \<Rightarrow> JDict []
      | other \<Rightarrow> other)"

definition post_json :: "(json \<Rightarrow> string) \<Rightarrow> string \<Rightarrow> json \<Rightarrow> kwargs \<Rightarrow> post_call" where
  "post_json dumps u data kw =
     (let data2 = post_json_data2 data;
          hs = (case headers kw of None \<Rightarrow> [] | Some h \<Rightarrow> h);
          kw' = kw\<lparr>headers := Some (dict_set hs ''Content-Type'' ''application/json'')\<rparr>
      in \<lparr>post_url = u, post_data = dumps data2, post_kwargs = kw'\<rparr>)"

section \<open>A concrete daemon and construction request\<close>

text \<open>
  An environment and a set of constructor arguments at which the theorems below are
  instantiated: a Linux host, a daemon that answers the version request with
  \<^verbatim>\<open>{"ApiVersion": "1.30"}\<close>, a minimum supported version of 1.21, and a plain TCP base
  address that \<^verbatim>\<open>parse_host\<close> returns as it is.
\<close>

definition example_env :: environment where
  "example_env =
     \<lparr>IS_WINDOWS_PLATFORM = False,
      npipe_adapter_imported = False,
      DEFAULT_DOCKER_API_VERSION = ''1.26'',
      MINIMUM_DOCKER_API_VERSION = ''1.21'',
      parse_host = (\<lambda>u w t. case u of
                       None \<Rightarrow> Inr ''http+unix://var/run/docker.sock''
                     | Some x \<Rightarrow> Inr x),
      server_version = Inr [''ApiVersion'' \<mapsto> ''1.30'']\<rparr>"

definition example_args :: init_args where
  "example_args =
     \<lparr>arg_base_url = Some ''http://127.0.0.1:2375'',
      arg_version = Version_Str ''auto'',
      arg_timeout = 60,
      arg_tls = TLS_False,
      arg_user_agent = ''docker-sdk-python'',
      arg_num_pools = 25\<rparr>"

definition example_client :: client where
  "example_client =
     \<lparr>base_url = ''http://127.0.0.1:2375'',
      timeout = 60,
      user_agent = ''docker-sdk-python'',
      adapters = [(''https://'', HTTPAdapter), (''http://'', HTTPAdapter)],
      custom_adapter = None,
      api_version = []\<rparr>"

declare multiplexed_buffer_loop.simps [simp del]
declare multiplexed_response_stream_loop.simps [simp del]
declare frame_offsets.simps [simp del]

section \<open>Frames on the wire\<close>

lemma be32_digits:
  assumes n: "n < 2 ^ 32"
  shows "((n div 2 ^ 24 mod 256 * 256 + n div 2 ^ 16 mod 256) * 256 + n div 2 ^ 8 mod 256) * 256
           + n mod 256 = (n::nat)"
proof -
  define a where "a = n div 2 ^ 8"
  define b where "b = a div 256"
  define c where "c = b div 256"
  have e16: "n div 2 ^ 16 = b" unfolding a_def b_def by (simp add: div_mult2_eq)
  have e24: "n div 2 ^ 24 = c" unfolding a_def b_def c_def by (simp add: div_mult2_eq)
  have c256: "c < 256" using n unfolding e24[symmetric] by (simp add: less_mult_imp_div_less)
  have 1: "c * 256 + b mod 256 = b" using c_def by simp
  have 2: "b * 256 + a mod 256 = a" using b_def by simp
  have 3: "a * 256 + n mod 256 = n" using a_def by simp
  have 0: "c mod 256 = c" using c256 by simp
  have "((n div 2 ^ 24 mod 256 * 256 + n div 2 ^ 16 mod 256) * 256 + n div 2 ^ 8 mod 256) * 256
          + n mod 256 = ((c * 256 + b mod 256) * 256 + a mod 256) * 256 + n mod 256"
    by (simp only: e16 e24 a_def[symmetric] 0)
  also have "\<dots> = n" by (simp only: 1 2 3)
  finally show ?thesis .
qed

lemma length_encode_header: "length (encode_header c n) = 8"
  by (simp add: encode_header_def)

lemma unpack_from_encode_header:
  "n < 2 ^ 32 \<Longrightarrow> unpack_from_BxxxL (encode_header c n @ rest) = Inr (unat c, n)"
  using be32_digits[of n] by (simp add: encode_header_def unat_of_nat)

lemma unpack_from_encode_header_only:
  "n < 2 ^ 32 \<Longrightarrow> unpack_from_BxxxL (encode_header c n) = Inr (unat c, n)"
  using unpack_from_encode_header[of n c "[]"] by simp

lemma unpack_encode_header:
  "n < 2 ^ 32 \<Longrightarrow> unpack_BxxxL (encode_header c n) = Inr (unat c, n)"
  by (simp add: unpack_BxxxL_def length_encode_header unpack_from_encode_header_only)

lemma unpack_from_total:
  "8 \<le> length bs \<Longrightarrow> \<exists>c n. unpack_from_BxxxL bs = Inr (c, n)"
  by (cases bs rule: unpack_from_BxxxL.cases) auto

lemma length_py_slice: "length (py_slice xs a b) = min (b - a) (length xs - a)"
  by (simp add: py_slice_def)

section \<open>The buffered loop\<close>

lemma buffer_loop_step:
  assumes "length p < 2 ^ 32"
  shows "multiplexed_buffer_loop (pre @ encode_header c (length p) @ p @ rest) (length pre) =
         yield p (multiplexed_buffer_loop (pre @ encode_header c (length p) @ p @ rest)
                    (length pre + 8 + length p))"
  using assms
  by (subst multiplexed_buffer_loop.simps)
     (simp add: py_slice_def STREAM_HEADER_SIZE_BYTES_def length_encode_header
                unpack_from_encode_header_only)

lemma buffer_loop_frames:
  assumes "\<forall>f \<in> set fs. length (snd f) < 2 ^ 32" and "length t < 8"
  shows "multiplexed_buffer_loop (pre @ encode_frames fs @ t) (length pre) = (map snd fs, Exhausted)"
  using assms
proof (induction fs arbitrary: pre)
  case Nil
  then show ?case
    by (subst multiplexed_buffer_loop.simps) (simp add: encode_frames_def STREAM_HEADER_SIZE_BYTES_def)
next
  case (Cons f fs)
  obtain c p where f: "f = (c, p)" by (cases f)
  have p: "length p < 2 ^ 32" using Cons.prems(1) f by simp
  let ?pre = "pre @ encode_header c (length p) @ p"
  have buf: "pre @ encode_frames (f # fs) @ t = ?pre @ encode_frames fs @ t"
    by (simp add: encode_frames_def encode_frame_def f)
  have IH: "multiplexed_buffer_loop (?pre @ encode_frames fs @ t) (length ?pre) = (map snd fs, Exhausted)"
    using Cons.IH[of ?pre] Cons.prems by simp
  have len: "length ?pre = length pre + 8 + length p"
    by (simp add: length_encode_header)
  have step: "multiplexed_buffer_loop (pre @ encode_header c (length p) @ p @ (encode_frames fs @ t)) (length pre)
        = yield p (multiplexed_buffer_loop (pre @ encode_header c (length p) @ p @ (encode_frames fs @ t))
                    (length pre + 8 + length p))"
    using p by (rule buffer_loop_step)
  have "multiplexed_buffer_loop (?pre @ encode_frames fs @ t) (length pre)
        = yield p (multiplexed_buffer_loop (?pre @ encode_frames fs @ t) (length ?pre))"
    using step unfolding len by simp
  then show ?case
    unfolding buf IH by (simp add: yield_def f)
qed

lemma buffer_decode_frames:
  assumes "\<forall>f \<in> set fs. length (snd f) < 2 ^ 32" and "length t < 8"
  shows "multiplexed_buffer_loop (encode_frames fs @ t) 0 = (map snd fs, Exhausted)"
  using buffer_loop_frames[OF assms, of "[]"] by simp

lemma buffer_loop_unfold:
  assumes "walker + 8 \<le> length buf"
  shows "multiplexed_buffer_loop buf walker =
         yield (py_slice buf (walker + 8) (walker + 8 + declared_length buf walker))
           (multiplexed_buffer_loop buf (walker + 8 + declared_length buf walker))"
proof -
  have "8 \<le> length (py_slice buf walker (walker + 8))"
    using assms by (simp add: length_py_slice)
  then obtain c n where u: "unpack_from_BxxxL (py_slice buf walker (walker + 8)) = Inr (c, n)"
    using unpack_from_total by blast
  show ?thesis
    using assms u
    by (subst multiplexed_buffer_loop.simps)
       (simp add: STREAM_HEADER_SIZE_BYTES_def declared_length_def Let_def)
qed

lemma buffer_loop_stop:
  assumes "length buf < walker + 8"
  shows "multiplexed_buffer_loop buf walker = ([], Exhausted)"
  using assms
  by (subst multiplexed_buffer_loop.simps) (simp add: STREAM_HEADER_SIZE_BYTES_def)

lemma buffer_loop_chunks:
  "multiplexed_buffer_loop buf walker =
     (map (\<lambda>p. py_slice buf (p + 8) (p + 8 + declared_length buf p)) (frame_offsets buf walker),
      Exhausted)"
proof (induction buf walker rule: frame_offsets.induct)
  case (1 buf walker)
  show ?case
  proof (cases "walker + 8 \<le> length buf")
    case True
    then have off: "frame_offsets buf walker =
        walker # frame_offsets buf (walker + 8 + declared_length buf walker)"
      by (subst frame_offsets.simps) (simp add: STREAM_HEADER_SIZE_BYTES_def)
    have IH: "multiplexed_buffer_loop buf (walker + 8 + declared_length buf walker) =
       (map (\<lambda>p. py_slice buf (p + 8) (p + 8 + declared_length buf p))
          (frame_offsets buf (walker + 8 + declared_length buf walker)), Exhausted)"
      using "1.IH" True by (simp add: STREAM_HEADER_SIZE_BYTES_def)
    show ?thesis
      unfolding buffer_loop_unfold[OF True] IH off by (simp add: yield_def)
  next
    case False
    then have "frame_offsets buf walker = []"
      by (subst frame_offsets.simps) (simp add: STREAM_HEADER_SIZE_BYTES_def)
    then show ?thesis using False by (simp add: buffer_loop_stop)
  qed
qed

section \<open>The streamed loop\<close>

lemma stream_loop_step:
  assumes "length p < 2 ^ 32"
  shows "multiplexed_response_stream_loop (encode_header c (length p) @ p @ rest) =
         (if p = [] then multiplexed_response_stream_loop rest
          else yield p (multiplexed_response_stream_loop rest))"
proof -
  have h: "encode_header c (length p) \<noteq> []"
    by (simp add: encode_header_def)
  show ?thesis
    using assms h
    by (subst multiplexed_response_stream_loop.simps)
       (simp add: read_def STREAM_HEADER_SIZE_BYTES_def length_encode_header
                  unpack_encode_header)
qed

lemma stream_loop_Nil: "multiplexed_response_stream_loop [] = ([], Exhausted)"
  by (subst multiplexed_response_stream_loop.simps) (simp add: read_def)

lemma stream_decode_frames:
  assumes "\<forall>f \<in> set fs. length (snd f) < 2 ^ 32"
  shows "multiplexed_response_stream_loop (encode_frames fs) =
         (filter (\<lambda>p. p \<noteq> []) (map snd fs), Exhausted)"
  using assms
proof (induction fs)
  case Nil
  then show ?case by (simp add: encode_frames_def stream_loop_Nil)
next
  case (Cons f fs)
  obtain c p where f: "f = (c, p)" by (cases f)
  have p: "length p < 2 ^ 32" using Cons.prems f by simp
  have buf: "encode_frames (f # fs) = encode_header c (length p) @ p @ encode_frames fs"
    by (simp add: encode_frames_def encode_frame_def f)
  have IH: "multiplexed_response_stream_loop (encode_frames fs) =
            (filter (\<lambda>p. p \<noteq> []) (map snd fs), Exhausted)"
    using Cons by simp
  show ?case
    unfolding buf stream_loop_step[OF p] IH by (simp add: yield_def f)
qed

lemma buffer_helper_ok:
  "raise_for_status r = None \<Longrightarrow>
   multiplexed_buffer_helper r = multiplexed_buffer_loop (content r) 0"
  by (simp add: multiplexed_buffer_helper_def result_binary_def)

lemma stream_helper_ok:
  "raise_for_status r = None \<Longrightarrow>
   multiplexed_response_stream_helper r = multiplexed_response_stream_loop (raw r)"
  by (simp add: multiplexed_response_stream_helper_def)

lemma raise_for_status_content [simp]:
  "raise_for_status (r\<lparr>content := b\<rparr>) = raise_for_status r"
  by (simp add: raise_for_status_def)

lemma raise_for_status_raw [simp]:
  "raise_for_status (r\<lparr>raw := b\<rparr>) = raise_for_status r"
  by (simp add: raise_for_status_def)

section \<open>Claims about the demultiplexer\<close>

text \<open>
  C1, as amended. For every sequence of (channel, payload) pairs whose payloads are
  shorter than \<open>2 ^ 32\<close> bytes, encoded with the 8-byte header format, the buffered-mode
  demultiplexer applied to the concatenated encoding of a successful response yields the
  original payloads in order and ends cleanly. The channel ids are not part of what it
  yields.
\<close>

theorem buffered_round_trip_payloads:
  assumes "\<forall>f \<in> set fs. length (snd f) < 2 ^ 32"
    and "raise_for_status r = None"
  shows "multiplexed_buffer_helper (r\<lparr>content := encode_frames fs\<rparr>) = (map snd fs, Exhausted)"
  using buffer_decode_frames[OF assms(1), of "[]"] assms(2)
  by (simp add: buffer_helper_ok)

theorem buffered_round_trip_payloads_witness:
  "raise_for_status \<lparr>status_code = 200, content = [], raw = [], iter_lines = [], iter_content = []\<rparr> = None
   \<and> multiplexed_buffer_helper
       \<lparr>status_code = 200, content = encode_frames [(1, [65, 66]), (2, [67])], raw = [],
        iter_lines = [], iter_content = []\<rparr> = ([[65, 66], [67]], Exhausted)"
  using buffered_round_trip_payloads
    [of "[(1, [65, 66]), (2, [67])]"
        "\<lparr>status_code = 200, content = [], raw = [], iter_lines = [], iter_content = []\<rparr>"]
  by (simp add: raise_for_status_def)

text \<open>
  C1 as stated fails: the one-frame sequences \<open>[(1, [65])]\<close> and \<open>[(2, [65])]\<close> differ in
  their channel, and the demultiplexer yields the same for both, the payload alone.
\<close>

theorem buffered_decoding_drops_channel:
  "encode_frames [(1, [65])] = [1, 0, 0, 0, 0, 0, 0, 1, 65]
   \<and> encode_frames [(2, [65])] = [2, 0, 0, 0, 0, 0, 0, 1, 65]
   \<and> multiplexed_buffer_helper
       \<lparr>status_code = 200, content = [1, 0, 0, 0, 0, 0, 0, 1, 65], raw = [],
        iter_lines = [], iter_content = []\<rparr> = ([[65]], Exhausted)
   \<and> multiplexed_buffer_helper
       \<lparr>status_code = 200, content = [2, 0, 0, 0, 0, 0, 0, 1, 65], raw = [],
        iter_lines = [], iter_content = []\<rparr> = ([[65]], Exhausted)"
proof (intro conjI)
  show "encode_frames [(1, [65])] = [1, 0, 0, 0, 0, 0, 0, 1, 65]"
    by (simp add: encode_frames_def encode_frame_def encode_header_def)
  show "encode_frames [(2, [65])] = [2, 0, 0, 0, 0, 0, 0, 1, 65]"
    by (simp add: encode_frames_def encode_frame_def encode_header_def)
  show "multiplexed_buffer_helper
       \<lparr>status_code = 200, content = [1, 0, 0, 0, 0, 0, 0, 1, 65], raw = [],
        iter_lines = [], iter_content = []\<rparr> = ([[65]], Exhausted)"
    by code_simp
  show "multiplexed_buffer_helper
       \<lparr>status_code = 200, content = [2, 0, 0, 0, 0, 0, 0, 1, 65], raw = [],
        iter_lines = [], iter_content = []\<rparr> = ([[65]], Exhausted)"
    by code_simp
qed

text \<open>
  C2, as amended. A frame of declared length zero is legal in both shapes and never ends
  the sequence: the frames after it are decoded as before. The buffered-blob shape emits
  an empty chunk for it; the streamed-response shape skips it and emits nothing for it.
\<close>

theorem zero_length_frame:
  assumes "\<forall>f \<in> set (fs1 @ fs2). length (snd f) < 2 ^ 32"
    and "raise_for_status r = None"
  shows "multiplexed_buffer_helper (r\<lparr>content := encode_frames (fs1 @ (c, []) # fs2)\<rparr>)
           = (map snd fs1 @ [] # map snd fs2, Exhausted)
       \<and> multiplexed_response_stream_helper (r\<lparr>raw := encode_frames (fs1 @ (c, []) # fs2)\<rparr>)
           = (filter (\<lambda>p. p \<noteq> []) (map snd fs1) @ filter (\<lambda>p. p \<noteq> []) (map snd fs2),
              Exhausted)"
proof -
  have wf: "\<forall>f \<in> set (fs1 @ (c, []) # fs2). length (snd f) < 2 ^ 32"
    using assms(1) by auto
  show ?thesis
    using buffer_decode_frames[OF wf, of "[]"] stream_decode_frames[OF wf] assms(2)
    by (simp add: buffer_helper_ok stream_helper_ok)
qed

theorem zero_length_frame_witness:
  "multiplexed_buffer_helper
     \<lparr>status_code = 200, content = encode_frames [(1, [65]), (1, []), (2, [66])], raw = [],
      iter_lines = [], iter_content = []\<rparr> = ([[65], [], [66]], Exhausted)
   \<and> multiplexed_response_stream_helper
     \<lparr>status_code = 200, content = [], raw = encode_frames [(1, [65]), (1, []), (2, [66])],
      iter_lines = [], iter_content = []\<rparr> = ([[65], [66]], Exhausted)"
  using zero_length_frame
    [of "[(1, [65])]" "[(2, [66])]"
        "\<lparr>status_code = 200, content = [], raw = [], iter_lines = [], iter_content = []\<rparr>" 1]
  by (simp add: raise_for_status_def)

text \<open>
  C2 as stated fails in the streamed-response shape: of the three frames with payloads
  \<open>[65]\<close>, \<open>[]\<close> and \<open>[66]\<close> only the first and the last are emitted; no empty chunk
  stands for the middle one.
\<close>

theorem streamed_zero_length_frame_not_emitted:
  "encode_frames [(1, [65]), (1, []), (2, [66])]
     = [1, 0, 0, 0, 0, 0, 0, 1, 65, 1, 0, 0, 0, 0, 0, 0, 0, 2, 0, 0, 0, 0, 0, 0, 1, 66]
   \<and> multiplexed_response_stream_helper
       \<lparr>status_code = 200, content = [],
        raw = [1, 0, 0, 0, 0, 0, 0, 1, 65, 1, 0, 0, 0, 0, 0, 0, 0, 2, 0, 0, 0, 0, 0, 0, 1, 66],
        iter_lines = [], iter_content = []\<rparr> = ([[65], [66]], Exhausted)"
proof (intro conjI)
  show "encode_frames [(1, [65]), (1, []), (2, [66])]
     = [1, 0, 0, 0, 0, 0, 0, 1, 65, 1, 0, 0, 0, 0, 0, 0, 0, 2, 0, 0, 0, 0, 0, 0, 1, 66]"
    by (simp add: encode_frames_def encode_frame_def encode_header_def)
  show "multiplexed_response_stream_helper
       \<lparr>status_code = 200, content = [],
        raw = [1, 0, 0, 0, 0, 0, 0, 1, 65, 1, 0, 0, 0, 0, 0, 0, 0, 2, 0, 0, 0, 0, 0, 0, 1, 66],
        iter_lines = [], iter_content = []\<rparr> = ([[65], [66]], Exhausted)"
    by code_simp
qed

text \<open>
  C3. A buffer that holds complete frames followed by fewer than 8 residual bytes decodes
  to the payloads of the complete frames and ends cleanly: nothing is emitted for the
  residue and nothing is raised. The buffered decoder of a successful response never ends
  with an exception, whatever the buffer. In streaming mode an empty header read, at the
  start or after any number of frames, ends the sequence cleanly.
\<close>

theorem short_tail_ends_cleanly:
  assumes "\<forall>f \<in> set fs. length (snd f) < 2 ^ 32"
    and "length t < 8"
    and "raise_for_status r = None"
  shows "multiplexed_buffer_helper (r\<lparr>content := encode_frames fs @ t\<rparr>) = (map snd fs, Exhausted)
       \<and> snd (multiplexed_buffer_helper r) = Exhausted
       \<and> multiplexed_response_stream_helper (r\<lparr>raw := []\<rparr>) = ([], Exhausted)
       \<and> multiplexed_response_stream_helper (r\<lparr>raw := encode_frames fs\<rparr>)
           = (filter (\<lambda>p. p \<noteq> []) (map snd fs), Exhausted)"
  using buffer_decode_frames[OF assms(1,2)] stream_decode_frames[OF assms(1)] assms(3)
  by (simp add: buffer_helper_ok stream_helper_ok buffer_loop_chunks stream_loop_Nil)

theorem short_tail_ends_cleanly_witness:
  "length [1, 0, 0 :: byte] < 8
   \<and> multiplexed_buffer_helper
       \<lparr>status_code = 200, content = encode_frames [(1, [65, 66])] @ [1, 0, 0], raw = [],
        iter_lines = [], iter_content = []\<rparr> = ([[65, 66]], Exhausted)
   \<and> multiplexed_response_stream_helper
       \<lparr>status_code = 200, content = [], raw = [],
        iter_lines = [], iter_content = []\<rparr> = ([], Exhausted)"
  using short_tail_ends_cleanly
    [of "[(1, [65, 66])]" "[1, 0, 0]"
        "\<lparr>status_code = 200, content = [], raw = [], iter_lines = [], iter_content = []\<rparr>"]
  by (simp add: raise_for_status_def)

text \<open>
  C7, as amended. Every payload the buffered demultiplexer emits for a successful response
  has as many bytes as its header declares or as the buffer still holds after that header,
  whichever is less: exactly the declared number when the declared length does not exceed
  the remaining bytes, the remaining bytes otherwise. The decoder does not compare the
  declared length with the buffer.
\<close>

theorem emitted_payload_length:
  assumes "raise_for_status r = None"
  shows "list_all2
           (\<lambda>p chunk. length chunk
              = min (declared_length (content r) p) (length (content r) - (p + 8)))
           (frame_offsets (content r) 0) (fst (multiplexed_buffer_helper r))"
  using assms
  by (simp add: buffer_helper_ok buffer_loop_chunks list_all2_map2 list_all2_same length_py_slice)

theorem emitted_payload_length_witness:
  "list_all2
     (\<lambda>p chunk. length chunk = min (declared_length [1, 0, 0, 0, 0, 0, 0, 5, 65, 66] p) (10 - (p + 8)))
     (frame_offsets [1, 0, 0, 0, 0, 0, 0, 5, 65, 66] 0)
     (fst (multiplexed_buffer_helper
        \<lparr>status_code = 200, content = [1, 0, 0, 0, 0, 0, 0, 5, 65, 66], raw = [],
         iter_lines = [], iter_content = []\<rparr>))"
  using emitted_payload_length
    [of "\<lparr>status_code = 200, content = [1, 0, 0, 0, 0, 0, 0, 5, 65, 66], raw = [],
         iter_lines = [], iter_content = []\<rparr>"]
  by (simp add: raise_for_status_def)

text \<open>
  C7 as stated fails: a header that declares 5 bytes, followed by the 2 bytes the buffer
  still holds, makes the demultiplexer emit a payload of 2 bytes.
\<close>

theorem truncated_payload_emitted:
  "declared_length [1, 0, 0, 0, 0, 0, 0, 5, 65, 66] 0 = 5
   \<and> multiplexed_buffer_helper
       \<lparr>status_code = 200, content = [1, 0, 0, 0, 0, 0, 0, 5, 65, 66], raw = [],
        iter_lines = [], iter_content = []\<rparr> = ([[65, 66]], Exhausted)"
  by code_simp

section \<open>Versions\<close>

lemma lex_less_irrefl: "\<not> lex_less xs xs"
  by (induction xs) auto

lemma lex_less_asym: "lex_less xs ys \<Longrightarrow> \<not> lex_less ys xs"
  by (induction xs ys rule: lex_less.induct) (auto split: if_splits)

lemma lex_less_total: "lex_less xs ys \<or> xs = ys \<or> lex_less ys xs"
  by (induction xs ys rule: lex_less.induct) auto

lemma compare_version_negative:
  "compare_version v1 v2 < 0 \<longleftrightarrow> version_precedes v2 v1"
  using lex_less_irrefl[of "version_tuple v1"]
  by (auto simp: compare_version_def version_precedes_def)

lemma version_lt_precedes: "version_lt v1 v2 \<longleftrightarrow> version_precedes v1 v2"
  using lex_less_irrefl[of "version_tuple v1"] lex_less_asym[of "version_tuple v1" "version_tuple v2"]
    lex_less_total[of "version_tuple v1" "version_tuple v2"]
  by (auto simp: version_lt_def compare_version_def version_precedes_def)

lemma v15: "version_precedes ''1.5'' ''1.6''"
  by (simp add: version_precedes_def version_tuple_def int_of_string_def)

lemma v130: "\<not> version_precedes ''1.30'' ''1.6''"
  by (simp add: version_precedes_def version_tuple_def int_of_string_def)

lemma v120: "version_precedes ''1.20'' ''1.21''"
  by (simp add: version_precedes_def version_tuple_def int_of_string_def)

lemma v124: "\<not> version_precedes ''1.24'' ''1.21''"
  by (simp add: version_precedes_def version_tuple_def int_of_string_def)

section \<open>Helper facts for the remaining operations\<close>

lemma join_buffer_loop:
  "join_generator (multiplexed_buffer_loop buf walker) =
     Inr (concat (fst (multiplexed_buffer_loop buf walker)))"
  by (simp add: join_generator_def buffer_loop_chunks)

lemma buffer_loop_example:
  "multiplexed_buffer_loop [1, 0, 0, 0, 0, 0, 0, 1, 65, 2, 0, 0, 0, 0, 0, 0, 1, 66] 0
     = ([[65], [66]], Exhausted)"
  by code_simp

lemma str_args_strings: "str_args (map Str_arg ss) = Inr ss"
  by (induction ss) auto

lemma example_transport: "init_transport example_env example_args = Inr example_client"
  by (simp add: init_transport_def example_env_def example_args_def example_client_def
      select_transport_def startswith_def new_session_def)

lemma example_transport_version:
  "init_transport example_env (example_args\<lparr>arg_version := v\<rparr>) = Inr example_client"
  by (simp add: init_transport_def example_env_def example_args_def example_client_def
      select_transport_def startswith_def new_session_def)

lemma example_transport_daemon:
  "init_transport (example_env\<lparr>server_version := d\<rparr>) example_args = Inr example_client"
  by (simp add: init_transport_def example_env_def example_args_def example_client_def
      select_transport_def startswith_def new_session_def)

lemma lower_auto: "lower ''auto'' = ''auto''"
  by (simp add: lower_def lower_char_def)

lemma lower_120: "lower ''1.20'' \<noteq> ''auto''"
  by (simp add: lower_def lower_char_def)

lemma lower_124: "lower ''1.24'' \<noteq> ''auto''"
  by (simp add: lower_def lower_char_def)

lemma dict_set_fresh: "k \<notin> fst ` set d \<Longrightarrow> dict_set d k v = d @ [(k, v)]"
  by (induction d) auto

lemma copy_not_none_filter:
  assumes "distinct (map fst items)" and "fst ` set items \<inter> fst ` set acc = {}"
  shows "copy_not_none items acc = acc @ filter (\<lambda>kv. snd kv \<noteq> JNone) items"
  using assms
proof (induction items arbitrary: acc)
  case Nil
  then show ?case by simp
next
  case (Cons kv items)
  obtain k v where kv: "kv = (k, v)" by (cases kv)
  have fresh: "k \<notin> fst ` set acc" using Cons.prems(2) kv by auto
  have d: "distinct (map fst items)" using Cons.prems(1) by simp
  have knot: "k \<notin> fst ` set items" using Cons.prems(1) kv by (auto simp: image_iff)
  show ?case
  proof (cases "v = JNone")
    case True
    have "fst ` set items \<inter> fst ` set acc = {}" using Cons.prems(2) by auto
    then show ?thesis using Cons.IH[OF d, of acc] True kv by simp
  next
    case False
    have "fst ` set items \<inter> fst ` set (acc @ [(k, v)]) = {}"
      using Cons.prems(2) knot by auto
    then show ?thesis
      using Cons.IH[OF d, of "acc @ [(k, v)]"] False kv fresh by (simp add: dict_set_fresh)
  qed
qed

lemma map_of_dict_set: "map_of (dict_set d k v) = (map_of d)(k \<mapsto> v)"
  by (induction d) (auto simp: fun_eq_iff)

section \<open>Claims about mode selection, construction, sockets and JSON bodies\<close>

text \<open>
  C4. For every resolved version, stream flag, terminal flag and response, a result of
  \<^verbatim>\<open>_get_result_tty\<close> is in Legacy-Line mode exactly when the version precedes 1.6,
  otherwise in Raw-Passthrough mode when the target has a terminal, otherwise in
  Multiplexed mode; the only exception it raises itself is the error of a failed
  response. For a successful response the Legacy-Line result is the lines with the blank
  ones discarded, the Raw-Passthrough result is the content as delivered, with no framing
  applied, and the Multiplexed result is what the demultiplexer decodes.
\<close>

theorem stream_mode_selection:
  "(case get_result_tty v stream res is_tty of
      Inr r \<Rightarrow> mode_of r =
        (if version_precedes v ''1.6'' then Legacy_Line
         else if is_tty then Raw_Passthrough else Multiplexed)
    | Inl e \<Rightarrow> raise_for_status res = Some e)
   \<and> (raise_for_status res = None \<longrightarrow>
        get_result_tty v stream res is_tty =
          Inr (if version_precedes v ''1.6''
               then Stream_raw_result_old (filter (\<lambda>line. line \<noteq> []) (iter_lines res), Exhausted)
               else if is_tty then
                 (if stream then Stream_raw_result (iter_content res, Exhausted)
                  else Result_binary (content res))
               else if stream
                 then Multiplexed_response_stream (multiplexed_response_stream_loop (raw res))
                 else Multiplexed_buffer_joined
                        (concat (fst (multiplexed_buffer_loop (content res) 0)))))"
proof (cases "raise_for_status res")
  case None
  then show ?thesis
    by (simp add: get_result_tty_def compare_version_negative stream_raw_result_old_def
        stream_raw_result_def result_binary_def join_buffer_loop buffer_helper_ok
        stream_helper_ok)
next
  case (Some e)
  then show ?thesis
    by (simp add: get_result_tty_def compare_version_negative result_binary_def)
qed

theorem stream_mode_selection_witness:
  "get_result_tty ''1.5'' True
     \<lparr>status_code = 200, content = [], raw = [], iter_lines = [''a'', [], ''b''],
      iter_content = []\<rparr> False
     = Inr (Stream_raw_result_old ([''a'', ''b''], Exhausted))
   \<and> get_result_tty ''1.30'' True
     \<lparr>status_code = 200, content = [], raw = [], iter_lines = [],
      iter_content = [''x'', ''y'']\<rparr> True
     = Inr (Stream_raw_result ([''x'', ''y''], Exhausted))
   \<and> get_result_tty ''1.30'' False
     \<lparr>status_code = 200,
      content = [1, 0, 0, 0, 0, 0, 0, 1, 65, 2, 0, 0, 0, 0, 0, 0, 1, 66], raw = [],
      iter_lines = [], iter_content = []\<rparr> False
     = Inr (Multiplexed_buffer_joined [65, 66])"
  using
    stream_mode_selection
      [where v = "''1.5''" and stream = True and is_tty = False and res =
          "\<lparr>status_code = 200, content = [], raw = [], iter_lines = [''a'', [], ''b''],
            iter_content = []\<rparr>"]
    stream_mode_selection
      [where v = "''1.30''" and stream = True and is_tty = True and res =
          "\<lparr>status_code = 200, content = [], raw = [], iter_lines = [],
            iter_content = [''x'', ''y'']\<rparr>"]
    stream_mode_selection
      [where v = "''1.30''" and stream = False and is_tty = False and res =
          "\<lparr>status_code = 200,
            content = [1, 0, 0, 0, 0, 0, 0, 1, 65, 2, 0, 0, 0, 0, 0, 0, 1, 66], raw = [],
            iter_lines = [], iter_content = []\<rparr>"]
  by (simp add: raise_for_status_def v15 v130 buffer_loop_example)

text \<open>
  C5. A construction with the version argument \<^verbatim>\<open>auto\<close> (in any letter case) whose
  transport set-up succeeds asks the daemon once. When the answer carries
  \<^verbatim>\<open>"ApiVersion": "1.30"\<close> the client's version is \<^verbatim>\<open>1.30\<close> and every versioned URL is the
  base address, then \<^verbatim>\<open>/v1.30\<close>, then the formatted path, so \<^verbatim>\<open>/v1.30/\<close> stands between
  the base address and the rest of a path that starts with a slash. When the answer has
  no \<^verbatim>\<open>ApiVersion\<close> the construction fails with a \<^verbatim>\<open>DockerException\<close> that names the
  missing key.
\<close>

theorem auto_version_negotiation:
  assumes "arg_version a = Version_Str s" and "lower s = ''auto''"
    and "init_transport env a = Inr c0"
    and "server_version env = Inr d"
  shows "(d ''ApiVersion'' = Some ''1.30'' \<longrightarrow>
            (\<exists>c. fst (init env a) = Inr c \<and> api_version c = ''1.30''
               \<and> base_url c = base_url c0
               \<and> network_calls (snd (init env a)) = 1
               \<and> (\<forall>format quote_f pathfmt ss.
                     url format quote_f c pathfmt (map Str_arg ss) True
                       = Inr (base_url c @ ''/v1.30'' @ format pathfmt (map quote_f ss)))
               \<and> (\<forall>format quote_f pathfmt ss rest.
                     format pathfmt (map quote_f ss) = CHR ''/'' # rest \<longrightarrow>
                     url format quote_f c pathfmt (map Str_arg ss) True
                       = Inr (base_url c @ ''/v1.30/'' @ rest))))
       \<and> (d ''ApiVersion'' = None \<longrightarrow>
            fst (init env a) = Inl (DockerException
               (''Invalid response from docker daemon: key '' @ [CHR 0x22] @ ''ApiVersion''
                  @ [CHR 0x22] @ '' is missing.'')))"
  using assms
  by (auto simp: init_def resolve_version_def retrieve_server_version_def url_def
      str_args_strings)

theorem auto_version_negotiation_witness:
  "(\<exists>c. fst (init example_env example_args) = Inr c \<and> api_version c = ''1.30''
       \<and> url (\<lambda>pathfmt ss. pathfmt) (\<lambda>x. x) c ''/containers/json'' [] True
            = Inr ''http://127.0.0.1:2375/v1.30/containers/json'')
   \<and> fst (init (example_env\<lparr>server_version := Inr Map.empty\<rparr>) example_args)
       = Inl (DockerException
               (''Invalid response from docker daemon: key '' @ [CHR 0x22] @ ''ApiVersion''
                  @ [CHR 0x22] @ '' is missing.''))"
proof -
  have v: "arg_version example_args = Version_Str ''auto''"
    by (simp add: example_args_def)
  have d: "server_version example_env = Inr [''ApiVersion'' \<mapsto> ''1.30'']"
    by (simp add: example_env_def)
  have d': "server_version (example_env\<lparr>server_version := Inr Map.empty\<rparr>) = Inr Map.empty"
    by simp
  from auto_version_negotiation[OF v lower_auto example_transport d]
  obtain c where c: "fst (init example_env example_args) = Inr c" "api_version c = ''1.30''"
      "base_url c = base_url example_client"
      "\<forall>format quote_f pathfmt ss.
         url format quote_f c pathfmt (map Str_arg ss) True
           = Inr (base_url c @ ''/v1.30'' @ format pathfmt (map quote_f ss))"
    by auto
  have "url (\<lambda>pathfmt ss. pathfmt) (\<lambda>x. x) c ''/containers/json'' (map Str_arg []) True
          = Inr (base_url c @ ''/v1.30'' @ ''/containers/json'')"
    using c(4) by blast
  then have u: "url (\<lambda>pathfmt ss. pathfmt) (\<lambda>x. x) c ''/containers/json'' [] True
          = Inr ''http://127.0.0.1:2375/v1.30/containers/json''"
    by (simp add: c(3) example_client_def)
  have m: "fst (init (example_env\<lparr>server_version := Inr Map.empty\<rparr>) example_args)
       = Inl (DockerException
               (''Invalid response from docker daemon: key '' @ [CHR 0x22] @ ''ApiVersion''
                  @ [CHR 0x22] @ '' is missing.''))"
    using auto_version_negotiation[OF v lower_auto example_transport_daemon d'] by simp
  show ?thesis using c(1,2) u m by blast
qed

text \<open>
  C6. A construction with TLS enabled and no base address (absent or empty) fails with
  the TLS parameter error, and no network call has been issued.
\<close>

theorem tls_requires_base_url:
  assumes "truthy_tls (arg_tls a)" and "\<not> truthy_str (arg_base_url a)"
  shows "init env a =
           (Inl (TLSParameterError ''If using TLS, the base_url argument must be provided.''),
            \<lparr>network_calls = 0, warnings = []\<rparr>)"
  using assms by (simp add: init_def init_transport_def no_effects_def)

theorem tls_requires_base_url_witness:
  "init example_env (example_args\<lparr>arg_base_url := None, arg_tls := TLS_True\<rparr>) =
     (Inl (TLSParameterError ''If using TLS, the base_url argument must be provided.''),
      \<lparr>network_calls = 0, warnings = []\<rparr>)"
  using tls_requires_base_url
    [of "example_args\<lparr>arg_base_url := None, arg_tls := TLS_True\<rparr>" example_env]
  by simp

text \<open>
  C8. When the transport set-up succeeds and the version resolves to \<open>v\<close>, the
  construction succeeds with that version; exactly one warning is emitted when \<open>v\<close> is
  older than the minimum supported version, and none otherwise.
\<close>

theorem below_minimum_warns_once:
  assumes "init_transport env a = Inr c0"
    and "fst (resolve_version env (arg_version a)) = Inr v"
  shows "fst (init env a) = Inr (c0\<lparr>api_version := v\<rparr>)
       \<and> (version_precedes v (MINIMUM_DOCKER_API_VERSION env) \<longrightarrow>
            length (warnings (snd (init env a))) = 1)
       \<and> (\<not> version_precedes v (MINIMUM_DOCKER_API_VERSION env) \<longrightarrow>
            warnings (snd (init env a)) = [])"
  using assms
  by (cases "resolve_version env (arg_version a)")
     (auto simp: init_def minimum_version_warning_def version_lt_precedes)

theorem below_minimum_warns_once_witness:
  "fst (init example_env (example_args\<lparr>arg_version := Version_Str ''1.20''\<rparr>))
     = Inr (example_client\<lparr>api_version := ''1.20''\<rparr>)
   \<and> length (warnings (snd (init example_env
              (example_args\<lparr>arg_version := Version_Str ''1.20''\<rparr>)))) = 1
   \<and> fst (init example_env (example_args\<lparr>arg_version := Version_Str ''1.24''\<rparr>))
     = Inr (example_client\<lparr>api_version := ''1.24''\<rparr>)
   \<and> warnings (snd (init example_env
              (example_args\<lparr>arg_version := Version_Str ''1.24''\<rparr>))) = []"
proof -
  have m: "MINIMUM_DOCKER_API_VERSION example_env = ''1.21''"
    by (simp add: example_env_def)
  have r1: "fst (resolve_version example_env
                  (arg_version (example_args\<lparr>arg_version := Version_Str ''1.20''\<rparr>)))
            = Inr ''1.20''"
    by (simp add: resolve_version_def lower_120)
  have r2: "fst (resolve_version example_env
                  (arg_version (example_args\<lparr>arg_version := Version_Str ''1.24''\<rparr>)))
            = Inr ''1.24''"
    by (simp add: resolve_version_def lower_124)
  show ?thesis
    using below_minimum_warns_once[OF example_transport_version r1]
      below_minimum_warns_once[OF example_transport_version r2]
    by (simp add: m v120 v124)
qed

text \<open>
  C9, as amended. \<^verbatim>\<open>_disable_socket_timeout\<close> visits the socket and the object directly
  behind its \<^verbatim>\<open>_sock\<close>, and changes nothing but timeouts. It sets the timeout of a
  visited socket to infinite exactly when the socket has \<^verbatim>\<open>settimeout\<close> and either
  reports, through \<^verbatim>\<open>gettimeout\<close>, a timeout that is neither \<^verbatim>\<open>None\<close> nor \<^verbatim>\<open>0.0\<close>, or has
  no \<^verbatim>\<open>gettimeout\<close> at all, in which case its timeout is taken as active without being
  read. A socket that reports \<^verbatim>\<open>None\<close> or \<^verbatim>\<open>0.0\<close> is left untouched, and a socket without
  \<^verbatim>\<open>settimeout\<close> is skipped.
\<close>

theorem disable_socket_timeout_effect:
  "has_settimeout (disable_socket_timeout s) = has_settimeout s
   \<and> has_gettimeout (disable_socket_timeout s) = has_gettimeout s
   \<and> sock_timeout (disable_socket_timeout s) =
       (if has_settimeout s
           \<and> (has_gettimeout s \<longrightarrow> sock_timeout s \<noteq> None \<and> sock_timeout s \<noteq> Some 0)
        then None else sock_timeout s)
   \<and> inner_sock (disable_socket_timeout s) =
       map_option
         (\<lambda>i. Socket (has_settimeout i) (has_gettimeout i)
                (if has_settimeout i
                    \<and> (has_gettimeout i \<longrightarrow> sock_timeout i \<noteq> None \<and> sock_timeout i \<noteq> Some 0)
                 then None else sock_timeout i)
                (inner_sock i))
         (inner_sock s)"
  by (cases s; cases "inner_sock s")
     (auto simp: disable_socket_timeout_def disable_timeout_of_def Let_def
           intro: socket.expand)

theorem disable_socket_timeout_effect_witness:
  "disable_socket_timeout
     (Socket True True (Some 60) (Some (Socket True True (Some 0) None)))
   = Socket True True None (Some (Socket True True (Some 0) None))"
  using disable_socket_timeout_effect
    [of "Socket True True (Some 60) (Some (Socket True True (Some 0) None))"]
  by (cases "disable_socket_timeout
     (Socket True True (Some 60) (Some (Socket True True (Some 0) None)))") simp

text \<open>
  C9 as stated fails: a non-blocking socket (timeout \<open>0.0\<close>) that has \<^verbatim>\<open>settimeout\<close> and
  no \<^verbatim>\<open>gettimeout\<close> is not left untouched; its timeout becomes infinite.
\<close>

theorem nonblocking_socket_without_gettimeout_changed:
  "disable_socket_timeout (Socket True False (Some 0) None) = Socket True False None None"
  by (simp add: disable_socket_timeout_def disable_timeout_of_def)

text \<open>
  C10. For a dictionary payload (its keys distinct, as in every Python dictionary) the
  body passed on is the serialisation of the dictionary without the items whose value is
  \<^verbatim>\<open>None\<close>, the other items unchanged and in order; the headers passed on have
  \<^verbatim>\<open>Content-Type\<close> set to \<^verbatim>\<open>application/json\<close> and are otherwise those of the caller.
\<close>

theorem post_json_drops_none:
  assumes "distinct (map fst items)"
  shows "post_data (post_json dumps u (JDict items) kw)
           = dumps (JDict (filter (\<lambda>kv. snd kv \<noteq> JNone) items))
       \<and> (\<exists>hs. headers (post_kwargs (post_json dumps u (JDict items) kw)) = Some hs
              \<and> map_of hs ''Content-Type'' = Some ''application/json''
              \<and> (\<forall>k. k \<noteq> ''Content-Type'' \<longrightarrow>
                    map_of hs k = map_of (case headers kw of None \<Rightarrow> [] | Some h \<Rightarrow> h) k))
       \<and> post_url (post_json dumps u (JDict items) kw) = u"
  using copy_not_none_filter[OF assms, of "[]"]
  by (simp add: post_json_def post_json_data2_def Let_def map_of_dict_set)

theorem post_json_drops_none_witness:
  "post_data (post_json (\<lambda>j. case j of JDict kvs \<Rightarrow> concat (map fst kvs) | _ \<Rightarrow> []) ''/containers/create''
      (JDict [(''Image'', JStr ''busybox''), (''Cmd'', JNone), (''Tty'', JBool False)])
      \<lparr>headers = None, params = []\<rparr>)
    = ''ImageTty''"
  using post_json_drops_none
    [of "[(''Image'', JStr ''busybox''), (''Cmd'', JNone), (''Tty'', JBool False)]"
        "(\<lambda>j. case j of JDict kvs \<Rightarrow> concat (map fst kvs) | _ \<Rightarrow> [])" "''/containers/create''" "\<lparr>headers = None, params = []\<rparr>"]
  by simp

end
